theory Spec2Isabelle
  imports Main
begin

section \<open>The Login component of src/src/Login.js\<close>

text \<open>
  \<^verbatim>\<open>Login.js\<close> is a React function component with two \<^verbatim>\<open>useState\<close> cells, two handlers
  defined in the component body, three handlers registered inline in the JSX and one prop,
  \<^verbatim>\<open>onClickSignUp\<close>. The embedding keeps the component state as a record, every handler as
  a function from the state of the render it closes over to the next state together with
  the list of outside effects it causes, oldest first.
\<close>

subsection \<open>Values, events and effects\<close>

text \<open>
  An event object as the handlers use it: the only property read is \<^verbatim>\<open>e.target.value\<close>.
\<close>

record dom_event =
  target_value :: string

text \<open>
  The arguments of \<^verbatim>\<open>console.log\<close>: a string, or an object literal as the list of its
  keys and string values in the order written.
\<close>

datatype js_val = Str string | Obj "(string \<times> string) list"

text \<open>
  What a handler does to the outside: \<^verbatim>\<open>e.preventDefault()\<close>, \<^verbatim>\<open>console.log(...)\<close>, the
  assignment to \<^verbatim>\<open>window.location.href\<close>, and a call of the prop \<^verbatim>\<open>onClickSignUp\<close> with
  the arguments it received. \<open>PageReload\<close> is the browser's default action for a form
  submission that no handler has cancelled.
\<close>

datatype effect =
    PreventDefault
  | ConsoleLog "js_val list"
  | SetLocationHref string
  | CallOnClickSignUp "dom_event list"
  | PageReload

subsection \<open>Component state\<close>

record login_state =
  username :: string
  password :: string

text \<open>\<^verbatim>\<open>useState('')\<close> for both cells (lines 5 and 6).\<close>

definition useState_init :: login_state where
  "useState_init = \<lparr>username = '''', password = ''''\<rparr>"

definition setUsername :: "string \<Rightarrow> login_state \<Rightarrow> login_state" where
  "setUsername v s = s\<lparr>username := v\<rparr>"

definition setPassword :: "string \<Rightarrow> login_state \<Rightarrow> login_state" where
  "setPassword v s = s\<lparr>password := v\<rparr>"

subsection \<open>Handlers\<close>

text \<open>
  Lines 8 to 12: \<^verbatim>\<open>e.preventDefault(); console.log('Login attempt:', { username, password })\<close>.
  No setter is called.
\<close>

definition handleLogin :: "login_state \<Rightarrow> dom_event \<Rightarrow> login_state \<times> effect list" where
  "handleLogin s e =
     (s, [PreventDefault,
          ConsoleLog [Str ''Login attempt:'',
                      Obj [(''username'', username s), (''password'', password s)]]])"

text \<open>
  Lines 14 to 16: the handler takes no parameter, so the event React passes is dropped.
\<close>

definition handleKakaoLogin :: "login_state \<Rightarrow> dom_event \<Rightarrow> login_state \<times> effect list" where
  "handleKakaoLogin s e = (s, [SetLocationHref ''http://localhost:8000/login/kakao''])"

text \<open>Lines 29 and 41: \<^verbatim>\<open>(e) => setUsername(e.target.value)\<close> and its twin.\<close>

definition onChange_username :: "login_state \<Rightarrow> dom_event \<Rightarrow> login_state \<times> effect list" where
  "onChange_username s e = (setUsername (target_value e) s, [])"

definition onChange_password :: "login_state \<Rightarrow> dom_event \<Rightarrow> login_state \<times> effect list" where
  "onChange_password s e = (setPassword (target_value e) s, [])"

text \<open>
  The prop \<^verbatim>\<open>onClickSignUp\<close> comes from the parent and its body is unknown: a call is
  recorded with the argument list it was given. Line 49 registers the prop itself as the
  click handler, \<^verbatim>\<open>onClick={onClickSignUp}\<close>, so it is called the way \<^verbatim>\<open>handleLogin\<close> and
  the \<^verbatim>\<open>onChange\<close> arrows are: with the event as its argument.
\<close>

definition onClickSignUp :: "login_state \<Rightarrow> dom_event \<Rightarrow> login_state \<times> effect list" where
  "onClickSignUp s e = (s, [CallOnClickSignUp [e]])"

subsection \<open>What is rendered\<close>

text \<open>
  Not a function of \<^verbatim>\<open>Login.js\<close>: the value an input of type \<^verbatim>\<open>text\<close> or \<^verbatim>\<open>password\<close>
  (lines 26 and 38) holds is the value set on it with every line feed and carriage return
  removed by the browser. It is what the field shows, what validation reads and what a
  change event carries in \<^verbatim>\<open>e.target.value\<close>.
\<close>

definition sanitize :: "string \<Rightarrow> string" where
  "sanitize v = filter (\<lambda>c. c \<noteq> CHR 0x0A \<and> c \<noteq> CHR 0x0D) v"

definition no_line_breaks :: "string \<Rightarrow> bool" where
  "no_line_breaks v = (CHR 0x0A \<notin> set v \<and> CHR 0x0D \<notin> set v)"

text \<open>
  Lines 28 and 40: both inputs are controlled, \<^verbatim>\<open>value={username}\<close> and
  \<^verbatim>\<open>value={password}\<close>, so each holds its cell's string as the input keeps it.
\<close>

record rendered =
  input_username_value :: string
  input_password_value :: string

definition render :: "login_state \<Rightarrow> rendered" where
  "render s =
     \<lparr>input_username_value = sanitize (username s),
      input_password_value = sanitize (password s)\<rparr>"

text \<open>
  Modelled from the spec: the browser's native validation of a \<^verbatim>\<open>required\<close> input (lines
  32 and 44), which no function of \<^verbatim>\<open>Login.js\<close> performs. The input fails it exactly when
  the value it holds is the empty string.
\<close>

definition valueMissing :: "string \<Rightarrow> bool" where
  "valueMissing v = (v = '''')"

text \<open>
  Modelled from the spec: the validation of the form, which passes when neither of its
  two required inputs is missing its value.
\<close>

definition checkValidity :: "rendered \<Rightarrow> bool" where
  "checkValidity r =
     (\<not> valueMissing (input_username_value r) \<and> \<not> valueMissing (input_password_value r))"

text \<open>
  Modelled from the spec: what the browser does with a submission request on the form
  (the submit button of line 47, or Enter in a field). It validates the rendered inputs
  first; when that fails, \<^verbatim>\<open>onSubmit\<close> is not called. Otherwise it calls the handler of line
  21, and when the handler has not cancelled the event it performs the default navigation,
  after which the component is mounted afresh.
\<close>

definition requestSubmit :: "login_state \<Rightarrow> dom_event \<Rightarrow> login_state \<times> effect list" where
  "requestSubmit s e =
     (if checkValidity (render s)
      then (case handleLogin s e of
              (s', fx) \<Rightarrow> if PreventDefault \<in> set fx then (s', fx)
                          else (useState_init, fx @ [PageReload]))
      else (s, []))"

subsection \<open>Event dispatch\<close>

text \<open>
  The events the rendered tree reacts to: a change of either input, a submission request
  on the form, a click on the sign-up \<^verbatim>\<open>div\<close> and a click on the Kakao button, which
  stands outside the form.
\<close>

datatype ui_event =
    ChangeUsername dom_event
  | ChangePassword dom_event
  | Submit dom_event
  | ClickSignUp dom_event
  | ClickKakao dom_event

text \<open>One event, handled to completion by the handler registered for it.\<close>

fun dispatch :: "login_state \<Rightarrow> ui_event \<Rightarrow> login_state \<times> effect list" where
  "dispatch s (ChangeUsername e) = onChange_username s e"
| "dispatch s (ChangePassword e) = onChange_password s e"
| "dispatch s (Submit e) = requestSubmit s e"
| "dispatch s (ClickSignUp e) = onClickSignUp s e"
| "dispatch s (ClickKakao e) = handleKakaoLogin s e"

text \<open>A sequence of events, each handled before the next; the effects are concatenated.\<close>

fun run :: "login_state \<Rightarrow> ui_event list \<Rightarrow> login_state \<times> effect list" where
  "run s [] = (s, [])"
| "run s (ev # evs) =
     (case dispatch s ev of
        (s', fx) \<Rightarrow> (case run s' evs of (s'', fx') \<Rightarrow> (s'', fx @ fx')))"

text \<open>
  The events a browser can deliver: the change event of a text or password input carries
  the value the input holds, which has no line feed and no carriage return.
\<close>

fun delivered :: "ui_event \<Rightarrow> bool" where
  "delivered (ChangeUsername e) = no_line_breaks (target_value e)"
| "delivered (ChangePassword e) = no_line_breaks (target_value e)"
| "delivered _ = True"

text \<open>
  The values passed to \<open>setUsername\<close> and to \<open>setPassword\<close> along a sequence of events,
  oldest first.
\<close>

fun username_edits :: "ui_event list \<Rightarrow> string list" where
  "username_edits [] = []"
| "username_edits (ChangeUsername e # evs) = target_value e # username_edits evs"
| "username_edits (_ # evs) = username_edits evs"

fun password_edits :: "ui_event list \<Rightarrow> string list" where
  "password_edits [] = []"
| "password_edits (ChangePassword e # evs) = target_value e # password_edits evs"
| "password_edits (_ # evs) = password_edits evs"

fun is_ConsoleLog :: "effect \<Rightarrow> bool" where
  "is_ConsoleLog (ConsoleLog _) = True"
| "is_ConsoleLog _ = False"

fun is_SetLocationHref :: "effect \<Rightarrow> bool" where
  "is_SetLocationHref (SetLocationHref _) = True"
| "is_SetLocationHref _ = False"

fun is_CallOnClickSignUp :: "effect \<Rightarrow> bool" where
  "is_CallOnClickSignUp (CallOnClickSignUp _) = True"
| "is_CallOnClickSignUp _ = False"

text \<open>
  The effects that reach a party other than the page itself: a navigation to another
  address and a call of the callback the parent supplied. The console, the event object
  and the reload belong to the page and its browser.
\<close>

fun is_external_call :: "effect \<Rightarrow> bool" where
  "is_external_call (SetLocationHref _) = True"
| "is_external_call (CallOnClickSignUp _) = True"
| "is_external_call _ = False"



section \<open>Properties\<close>

text \<open>
  C7. When the component mounts, both cells hold the empty string, and so do the two
  rendered inputs.
\<close>

theorem mount_fields_empty:
  "username useState_init = '''' \<and> password useState_init = ''''
   \<and> input_username_value (render useState_init) = ''''
   \<and> input_password_value (render useState_init) = ''''"
  by (simp add: useState_init_def render_def sanitize_def)

subsection \<open>Supporting lemmas\<close>

lemma sanitize_clean: "no_line_breaks v \<Longrightarrow> sanitize v = v"
  by (simp add: no_line_breaks_def sanitize_def filter_id_conv) metis

lemma sanitize_nonempty: "sanitize v \<noteq> [] \<Longrightarrow> v \<noteq> []"
  by (auto simp: sanitize_def)

lemma sanitize_last:
  "list_all no_line_breaks vs \<Longrightarrow> sanitize (last (a # vs)) = last (sanitize a # vs)"
  by (induction vs arbitrary: a) (simp_all add: sanitize_clean)

lemma dispatch_username:
  "username (fst (dispatch s ev)) = last (username s # username_edits [ev])"
  by (cases ev)
     (simp_all add: onChange_username_def onChange_password_def setUsername_def
        setPassword_def requestSubmit_def handleLogin_def onClickSignUp_def
        handleKakaoLogin_def)

lemma dispatch_password:
  "password (fst (dispatch s ev)) = last (password s # password_edits [ev])"
  by (cases ev)
     (simp_all add: onChange_username_def onChange_password_def setUsername_def
        setPassword_def requestSubmit_def handleLogin_def onClickSignUp_def
        handleKakaoLogin_def)

lemma username_edits_Cons:
  "last (v # username_edits (ev # evs)) =
   last (last (v # username_edits [ev]) # username_edits evs)"
  by (cases ev) simp_all

lemma password_edits_Cons:
  "last (v # password_edits (ev # evs)) =
   last (last (v # password_edits [ev]) # password_edits evs)"
  by (cases ev) simp_all

lemma run_username:
  "username (fst (run s evs)) = last (username s # username_edits evs)"
proof (induction evs arbitrary: s)
  case Nil
  show ?case by simp
next
  case (Cons ev evs)
  obtain s' fx where d: "dispatch s ev = (s', fx)" by (cases "dispatch s ev")
  obtain s'' fx' where r: "run s' evs = (s'', fx')" by (cases "run s' evs")
  have "username (fst (run s (ev # evs))) = username (fst (run s' evs))"
    using d r by simp
  also have "\<dots> = last (username s' # username_edits evs)"
    by (rule Cons.IH)
  also have "username s' = last (username s # username_edits [ev])"
    using dispatch_username [of s ev] d by simp
  finally show ?case
    by (simp only: username_edits_Cons [symmetric])
qed

lemma run_password:
  "password (fst (run s evs)) = last (password s # password_edits evs)"
proof (induction evs arbitrary: s)
  case Nil
  show ?case by simp
next
  case (Cons ev evs)
  obtain s' fx where d: "dispatch s ev = (s', fx)" by (cases "dispatch s ev")
  obtain s'' fx' where r: "run s' evs = (s'', fx')" by (cases "run s' evs")
  have "password (fst (run s (ev # evs))) = password (fst (run s' evs))"
    using d r by simp
  also have "\<dots> = last (password s' # password_edits evs)"
    by (rule Cons.IH)
  also have "password s' = last (password s # password_edits [ev])"
    using dispatch_password [of s ev] d by simp
  finally show ?case
    by (simp only: password_edits_Cons [symmetric])
qed

lemma delivered_username_edits:
  "list_all delivered evs \<Longrightarrow> list_all no_line_breaks (username_edits evs)"
  by (induction evs rule: username_edits.induct) simp_all

lemma delivered_password_edits:
  "list_all delivered evs \<Longrightarrow> list_all no_line_breaks (password_edits evs)"
  by (induction evs rule: password_edits.induct) simp_all

lemma shown_username:
  "list_all delivered evs \<Longrightarrow>
   input_username_value (render (fst (run s evs))) =
   last (sanitize (username s) # username_edits evs)"
proof -
  assume "list_all delivered evs"
  then have "sanitize (last (username s # username_edits evs)) =
             last (sanitize (username s) # username_edits evs)"
    by (intro sanitize_last delivered_username_edits)
  then show ?thesis
    by (simp only: render_def run_username rendered.simps)
qed

lemma shown_password:
  "list_all delivered evs \<Longrightarrow>
   input_password_value (render (fst (run s evs))) =
   last (sanitize (password s) # password_edits evs)"
proof -
  assume "list_all delivered evs"
  then have "sanitize (last (password s # password_edits evs)) =
             last (sanitize (password s) # password_edits evs)"
    by (intro sanitize_last delivered_password_edits)
  then show ?thesis
    by (simp only: render_def run_password rendered.simps)
qed

lemma fold_setUsername: "username (fold setUsername vs s) = last (username s # vs)"
  by (induction vs arbitrary: s) (simp_all add: setUsername_def)

lemma fold_setPassword: "password (fold setPassword vs s) = last (password s # vs)"
  by (induction vs arbitrary: s) (simp_all add: setPassword_def)

lemma run_cells_clean:
  "list_all delivered evs \<Longrightarrow>
   sanitize (username (fst (run useState_init evs))) = username (fst (run useState_init evs))
   \<and> sanitize (password (fst (run useState_init evs))) = password (fst (run useState_init evs))"
  using shown_username [of evs useState_init] shown_password [of evs useState_init]
  by (simp add: render_def run_username run_password useState_init_def sanitize_def)

lemma dispatch_log_nonempty:
  "ConsoleLog [l, Obj [(k1, u), (k2, p)]] \<in> set (snd (dispatch s ev))
   \<Longrightarrow> u \<noteq> [] \<and> p \<noteq> []"
  by (cases ev)
     (auto simp: onChange_username_def onChange_password_def requestSubmit_def
        handleLogin_def onClickSignUp_def handleKakaoLogin_def checkValidity_def
        valueMissing_def render_def sanitize_def split: if_splits)

lemma run_log_nonempty:
  "ConsoleLog [l, Obj [(k1, u), (k2, p)]] \<in> set (snd (run s evs))
   \<Longrightarrow> u \<noteq> [] \<and> p \<noteq> []"
proof (induction evs arbitrary: s)
  case Nil
  then show ?case by simp
next
  case (Cons ev evs)
  obtain s' fx where d: "dispatch s ev = (s', fx)" by (cases "dispatch s ev")
  obtain s'' fx' where r: "run s' evs = (s'', fx')" by (cases "run s' evs")
  from Cons.prems d r
  have "ConsoleLog [l, Obj [(k1, u), (k2, p)]] \<in> set fx \<union> set fx'" by simp
  then show ?case
  proof
    assume "ConsoleLog [l, Obj [(k1, u), (k2, p)]] \<in> set fx"
    then show ?thesis using dispatch_log_nonempty [of l k1 u k2 p s ev] d by simp
  next
    assume "ConsoleLog [l, Obj [(k1, u), (k2, p)]] \<in> set fx'"
    then show ?thesis using Cons.IH [of s'] r by simp
  qed
qed

lemma submit_blocked:
  "username s = [] \<or> password s = [] \<Longrightarrow> dispatch s (Submit e) = (s, [])"
  by (auto simp: requestSubmit_def checkValidity_def valueMissing_def render_def sanitize_def)

lemma submit_reaches_handler:
  "sanitize (username s) \<noteq> [] \<Longrightarrow> sanitize (password s) \<noteq> []
   \<Longrightarrow> dispatch s (Submit e) = handleLogin s e"
  by (simp add: requestSubmit_def checkValidity_def valueMissing_def render_def
        handleLogin_def)

subsection \<open>Submission\<close>

text \<open>
  C1 as written fails: with \<^verbatim>\<open>alice\<close> and \<^verbatim>\<open>pw1\<close> in the cells, \<open>handleLogin\<close> does not hand
  the record to any outside party once; it makes no outside call at all. The comment on
  line 11 leaves the real login call to be added.
\<close>
theorem handleLogin_collaborator_counterexample:
  "length (filter is_external_call
     (snd (handleLogin \<lparr>username = ''alice'', password = ''pw1''\<rparr> \<lparr>target_value = ''''\<rparr>)))
   \<noteq> 1"
  by (simp add: handleLogin_def)

text \<open>
  C1, amended. Called in a render whose cells hold \<open>i\<close> and \<open>p\<close>, \<open>handleLogin\<close> builds the
  object \<^verbatim>\<open>{ username: i, password: p }\<close> with both values unchanged and writes it exactly
  once to the console, under the label \<^verbatim>\<open>'Login attempt:'\<close>; it calls no outside party.
  The scenario \<^verbatim>\<open>alice\<close>, \<^verbatim>\<open>pw1\<close> is the last conjunct.
\<close>
theorem handleLogin_logs_once:
  "snd (handleLogin \<lparr>username = i, password = p\<rparr> e) =
     [PreventDefault,
      ConsoleLog [Str ''Login attempt:'', Obj [(''username'', i), (''password'', p)]]]
   \<and> filter is_ConsoleLog (snd (handleLogin \<lparr>username = i, password = p\<rparr> e)) =
     [ConsoleLog [Str ''Login attempt:'', Obj [(''username'', i), (''password'', p)]]]
   \<and> filter is_external_call (snd (handleLogin \<lparr>username = i, password = p\<rparr> e)) = []
   \<and> snd (dispatch \<lparr>username = ''alice'', password = ''pw1''\<rparr> (Submit e)) =
     [PreventDefault,
      ConsoleLog [Str ''Login attempt:'',
                  Obj [(''username'', ''alice''), (''password'', ''pw1'')]]]"
  by (simp add: handleLogin_def requestSubmit_def render_def checkValidity_def
        valueMissing_def sanitize_def)

text \<open>
  C2. After any sequence of events a browser can deliver to the mounted component, both
  inputs hold exactly their cells; while either is empty a submission request does not
  reach \<open>handleLogin\<close> (no effect, same state); once both are non-empty it does; and every
  login attempt logged along the sequence carries two non-empty values.
\<close>
theorem required_gates_submit:
  assumes "run useState_init evs = (s, fx)" and "list_all delivered evs"
  shows "input_username_value (render s) = username s
       \<and> input_password_value (render s) = password s
       \<and> (username s = [] \<or> password s = [] \<longrightarrow> dispatch s (Submit e) = (s, []))
       \<and> (username s \<noteq> [] \<and> password s \<noteq> [] \<longrightarrow> dispatch s (Submit e) = handleLogin s e)
       \<and> (\<forall>u p. ConsoleLog [Str ''Login attempt:'', Obj [(''username'', u), (''password'', p)]]
                   \<in> set fx \<longrightarrow> u \<noteq> [] \<and> p \<noteq> [])"
proof -
  have clean: "sanitize (username s) = username s \<and> sanitize (password s) = password s"
    using run_cells_clean [OF assms(2)] assms(1) by simp
  have logged:
    "\<forall>u p. ConsoleLog [Str ''Login attempt:'', Obj [(''username'', u), (''password'', p)]]
             \<in> set fx \<longrightarrow> u \<noteq> [] \<and> p \<noteq> []"
    using run_log_nonempty [of _ _ _ _ _ useState_init evs] assms(1) by simp
  have shown: "input_username_value (render s) = username s
             \<and> input_password_value (render s) = password s"
    using clean by (simp add: render_def)
  have reach: "username s \<noteq> [] \<and> password s \<noteq> [] \<longrightarrow> dispatch s (Submit e) = handleLogin s e"
    using submit_reaches_handler [of s e] clean by simp
  show ?thesis
    using shown reach logged submit_blocked [of s e] by blast
qed

theorem required_gates_submit_witness:
  "run useState_init
     [ChangeUsername \<lparr>target_value = ''alice''\<rparr>, Submit \<lparr>target_value = ''''\<rparr>,
      ChangePassword \<lparr>target_value = ''pw1''\<rparr>, Submit \<lparr>target_value = ''''\<rparr>]
   = (\<lparr>username = ''alice'', password = ''pw1''\<rparr>,
      [PreventDefault,
       ConsoleLog [Str ''Login attempt:'',
                   Obj [(''username'', ''alice''), (''password'', ''pw1'')]]])
   \<and> list_all delivered
      [ChangeUsername \<lparr>target_value = ''alice''\<rparr>, Submit \<lparr>target_value = ''''\<rparr>,
       ChangePassword \<lparr>target_value = ''pw1''\<rparr>, Submit \<lparr>target_value = ''''\<rparr>]
   \<and> render \<lparr>username = ''alice'', password = ''pw1''\<rparr>
     = \<lparr>input_username_value = ''alice'', input_password_value = ''pw1''\<rparr>
   \<and> dispatch \<lparr>username = ''alice'', password = ''pw1''\<rparr> (Submit \<lparr>target_value = ''''\<rparr>)
     = handleLogin \<lparr>username = ''alice'', password = ''pw1''\<rparr> \<lparr>target_value = ''''\<rparr>
   \<and> ''alice'' \<noteq> [] \<and> ''pw1'' \<noteq> []
   \<and> run useState_init [ChangeUsername \<lparr>target_value = ''alice''\<rparr>]
     = (\<lparr>username = ''alice'', password = ''''\<rparr>, [])
   \<and> list_all delivered [ChangeUsername \<lparr>target_value = ''alice''\<rparr>]
   \<and> dispatch \<lparr>username = ''alice'', password = ''''\<rparr> (Submit \<lparr>target_value = ''''\<rparr>)
     = (\<lparr>username = ''alice'', password = ''''\<rparr>, [])"
proof -
  have r1: "run useState_init
     [ChangeUsername \<lparr>target_value = ''alice''\<rparr>, Submit \<lparr>target_value = ''''\<rparr>,
      ChangePassword \<lparr>target_value = ''pw1''\<rparr>, Submit \<lparr>target_value = ''''\<rparr>]
   = (\<lparr>username = ''alice'', password = ''pw1''\<rparr>,
      [PreventDefault,
       ConsoleLog [Str ''Login attempt:'',
                   Obj [(''username'', ''alice''), (''password'', ''pw1'')]]])"
    by (simp add: useState_init_def onChange_username_def onChange_password_def
          setUsername_def setPassword_def handleLogin_def requestSubmit_def
          checkValidity_def valueMissing_def render_def sanitize_def)
  have d1: "list_all delivered
      [ChangeUsername \<lparr>target_value = ''alice''\<rparr>, Submit \<lparr>target_value = ''''\<rparr>,
       ChangePassword \<lparr>target_value = ''pw1''\<rparr>, Submit \<lparr>target_value = ''''\<rparr>]"
    by (simp add: no_line_breaks_def)
  have r2: "run useState_init [ChangeUsername \<lparr>target_value = ''alice''\<rparr>]
     = (\<lparr>username = ''alice'', password = ''''\<rparr>, [])"
    by (simp add: useState_init_def onChange_username_def setUsername_def)
  have d2: "list_all delivered [ChangeUsername \<lparr>target_value = ''alice''\<rparr>]"
    by (simp add: no_line_breaks_def)
  have rd: "render \<lparr>username = ''alice'', password = ''pw1''\<rparr>
     = \<lparr>input_username_value = ''alice'', input_password_value = ''pw1''\<rparr>"
    by (simp add: render_def sanitize_def)
  show ?thesis
    using r1 d1 r2 d2 rd
      required_gates_submit [OF r1 d1, of "\<lparr>target_value = ''''\<rparr>"]
      required_gates_submit [OF r2 d2, of "\<lparr>target_value = ''''\<rparr>"]
    by simp
qed

text \<open>
  C3. Every call of \<open>handleLogin\<close> cancels the event's default action, so a submission
  request never ends in a page reload and leaves the component state as it was.
\<close>
theorem submit_prevents_default:
  "PreventDefault \<in> set (snd (handleLogin s e))
   \<and> PageReload \<notin> set (snd (dispatch s (Submit e)))
   \<and> fst (dispatch s (Submit e)) = s"
  by (simp add: handleLogin_def requestSubmit_def)

text \<open>
  C9. \<open>handleLogin\<close> returns the state it was called in: a submission clears or changes
  neither field.
\<close>
theorem submit_keeps_fields:
  "fst (handleLogin s e) = s
   \<and> username (fst (dispatch s (Submit e))) = username s
   \<and> password (fst (dispatch s (Submit e))) = password s"
  by (simp add: handleLogin_def requestSubmit_def)




subsection \<open>The other two controls\<close>

text \<open>
  C4. For any two states and events, \<open>handleKakaoLogin\<close> has the same effect: one
  assignment of the one literal URL to \<^verbatim>\<open>window.location.href\<close>.
\<close>
theorem kakao_target_fixed:
  "snd (handleKakaoLogin s1 e1) = snd (handleKakaoLogin s2 e2)
   \<and> snd (dispatch s1 (ClickKakao e1)) = [SetLocationHref ''http://localhost:8000/login/kakao'']
   \<and> length (filter is_SetLocationHref (snd (dispatch s1 (ClickKakao e1)))) = 1"
  by (simp add: handleKakaoLogin_def)

text \<open>
  C5 as written fails: a click on the sign-up element does not call the prop with an
  empty argument list.
\<close>
theorem signup_no_arguments_counterexample:
  "snd (dispatch \<lparr>username = '''', password = ''''\<rparr> (ClickSignUp \<lparr>target_value = ''''\<rparr>))
     \<noteq> [CallOnClickSignUp []]"
  by (simp add: onClickSignUp_def)

text \<open>
  C5, amended. In every state, a click on the sign-up element calls \<^verbatim>\<open>onClickSignUp\<close>
  exactly once, with the click event as its only argument, and leaves the fields alone.
\<close>
theorem signup_called_once_with_event:
  "dispatch s (ClickSignUp e) = (s, [CallOnClickSignUp [e]])
   \<and> length (filter is_CallOnClickSignUp (snd (dispatch s (ClickSignUp e)))) = 1"
  by (simp add: onClickSignUp_def)

subsection \<open>Editing the fields\<close>

text \<open>
  C6. After any sequence of events a browser can deliver, the value shown in the username
  input is the last value passed to \<open>setUsername\<close>, exactly as passed (what the input
  held before the sequence when there was no edit); the same for the password input and
  \<open>setPassword\<close>. The last two conjuncts say it of the setters alone, for values as the
  \<^verbatim>\<open>onChange\<close> handlers pass them.
\<close>
theorem displayed_value_is_last_edit:
  assumes "list_all delivered evs" and "list_all no_line_breaks vs"
  shows "input_username_value (render (fst (run s evs))) =
           last (sanitize (username s) # username_edits evs)
       \<and> input_password_value (render (fst (run s evs))) =
           last (sanitize (password s) # password_edits evs)
       \<and> input_username_value (render (fold setUsername vs s)) =
           last (sanitize (username s) # vs)
       \<and> input_password_value (render (fold setPassword vs s)) =
           last (sanitize (password s) # vs)"
proof -
  have "sanitize (last (username s # vs)) = last (sanitize (username s) # vs)"
    and "sanitize (last (password s # vs)) = last (sanitize (password s) # vs)"
    using assms(2) by (rule sanitize_last)+
  then have "input_username_value (render (fold setUsername vs s)) =
               last (sanitize (username s) # vs)
           \<and> input_password_value (render (fold setPassword vs s)) =
               last (sanitize (password s) # vs)"
    by (simp only: render_def fold_setUsername fold_setPassword rendered.simps)
  then show ?thesis
    using shown_username [OF assms(1), of s] shown_password [OF assms(1), of s] by simp
qed

theorem displayed_value_is_last_edit_witness:
  "list_all delivered
     [ChangeUsername \<lparr>target_value = ''al''\<rparr>, ChangePassword \<lparr>target_value = ''pw1''\<rparr>,
      ChangeUsername \<lparr>target_value = ''alice''\<rparr>]
   \<and> list_all no_line_breaks [''a'', ''alice'']
   \<and> input_username_value (render (fst (run useState_init
       [ChangeUsername \<lparr>target_value = ''al''\<rparr>, ChangePassword \<lparr>target_value = ''pw1''\<rparr>,
        ChangeUsername \<lparr>target_value = ''alice''\<rparr>]))) = ''alice''
   \<and> input_password_value (render (fst (run useState_init
       [ChangeUsername \<lparr>target_value = ''al''\<rparr>, ChangePassword \<lparr>target_value = ''pw1''\<rparr>,
        ChangeUsername \<lparr>target_value = ''alice''\<rparr>]))) = ''pw1''
   \<and> input_username_value (render (fold setUsername [''a'', ''alice''] useState_init)) = ''alice''
   \<and> input_password_value (render (fold setPassword [''a'', ''alice''] useState_init)) = ''alice''"
proof -
  have d: "list_all delivered
     [ChangeUsername \<lparr>target_value = ''al''\<rparr>, ChangePassword \<lparr>target_value = ''pw1''\<rparr>,
      ChangeUsername \<lparr>target_value = ''alice''\<rparr>]"
    by (simp add: no_line_breaks_def)
  have n: "list_all no_line_breaks [''a'', ''alice'']"
    by (simp add: no_line_breaks_def)
  show ?thesis
    using d n displayed_value_is_last_edit [OF d n, of useState_init]
    by simp
qed

text \<open>
  C8. \<open>setUsername\<close> leaves the password cell as it was and \<open>setPassword\<close> the username
  cell, called directly or through the \<^verbatim>\<open>onChange\<close> handlers.
\<close>
theorem setters_independent:
  "password (setUsername v s) = password s \<and> username (setPassword v s) = username s
   \<and> password (fst (dispatch s (ChangeUsername e))) = password s
   \<and> username (fst (dispatch s (ChangePassword e))) = username s"
  by (simp add: setUsername_def setPassword_def onChange_username_def onChange_password_def)

end
